theory Spec2Isabelle
  imports Main
begin

section \<open>JavaScript values\<close>

text \<open>
  Event payloads, token payloads and client-side messages are JSON values. Numbers are
  modelled as integers (ids and counters in the range that a double holds exactly; no
  fraction is ever computed on them), strings as lists of characters, each standing for
  one code unit below 256, objects as association lists read by key, left to right.
\<close>

datatype json =
    JUndefined
  | JNull
  | JBool bool
  | JNum int
  | JStr string
  | JArr "json list"
  | JObj "(string \<times> json) list"

datatype exn = TypeError | AuthenticationError | PersistenceError

text \<open>Truthiness, as tested by \<open>if (x)\<close>, \<open>!x\<close>, \<open>x && y\<close> and \<open>x || y\<close>.\<close>

fun truthy :: "json \<Rightarrow> bool" where
  "truthy JUndefined = False"
| "truthy JNull = False"
| "truthy (JBool b) = b"
| "truthy (JNum n) = (n \<noteq> 0)"
| "truthy (JStr s) = (s \<noteq> [])"
| "truthy (JArr xs) = True"
| "truthy (JObj kv) = True"

fun nullish :: "json \<Rightarrow> bool" where
  "nullish JUndefined = True"
| "nullish JNull = True"
| "nullish v = False"

fun primitive :: "json \<Rightarrow> bool" where
  "primitive (JArr xs) = False"
| "primitive (JObj kv) = False"
| "primitive v = True"

text \<open>
  \<open>a === b\<close>, and the key comparison of \<open>Array.prototype.includes\<close>: primitives are compared
  by value. Two arrays or objects are equal only when they are the same reference; the
  values compared in this program come from separately deserialised payloads, so two of
  them are never the same reference.
\<close>

definition strict_eq :: "json \<Rightarrow> json \<Rightarrow> bool" where
  "strict_eq a b = (primitive a \<and> a = b)"

text \<open>
  \<open>o.k\<close> on a value that is not null or undefined. Only own data keys are read in this
  program (\<open>id\<close>, \<open>userId\<close>, \<open>conversationId\<close>, ...), so a primitive or an array yields
  undefined.
\<close>

fun get :: "json \<Rightarrow> string \<Rightarrow> json" where
  "get (JObj kv) k = (case map_of kv k of Some v \<Rightarrow> v | None \<Rightarrow> JUndefined)"
| "get v k = JUndefined"

text \<open>\<open>o?.k\<close>\<close>

definition opt_get :: "json \<Rightarrow> string \<Rightarrow> json" where
  "opt_get v k = (if nullish v then JUndefined else get v k)"

text \<open>\<open>a || b\<close>\<close>

definition or_else :: "json \<Rightarrow> json \<Rightarrow> json" where
  "or_else a b = (if truthy a then a else b)"

text \<open>\<open>{...o, k: v}\<close>: an existing key keeps its place, a new key goes last.\<close>

fun obj_set :: "(string \<times> json) list \<Rightarrow> string \<Rightarrow> json \<Rightarrow> (string \<times> json) list" where
  "obj_set [] k v = [(k, v)]"
| "obj_set ((k', v') # kv) k v = (if k' = k then (k, v) # kv else (k', v') # obj_set kv k v)"

text \<open>
  \<open>{...o}\<close>: the own keys of an object; nothing for null, undefined, a number or a boolean.
  (An array or a string would give its indices as keys; no value spread in this program is
  one, and the model gives them no keys.)
\<close>

fun spread :: "json \<Rightarrow> (string \<times> json) list" where
  "spread (JObj kv) = kv"
| "spread v = []"

subsection \<open>Conversion to string (template literals, property keys)\<close>

fun show_nat :: "nat \<Rightarrow> string" where
  "show_nat n = (if n < 10 then [''0123456789'' ! n]
                 else show_nat (n div 10) @ [''0123456789'' ! (n mod 10)])"

declare show_nat.simps [simp del]

definition show_int :: "int \<Rightarrow> string" where
  "show_int i = (if i < 0 then CHR ''-'' # show_nat (nat (- i)) else show_nat (nat i))"

fun join_comma :: "string list \<Rightarrow> string" where
  "join_comma [] = []"
| "join_comma [s] = s"
| "join_comma (s # t # ss) = s @ CHR '','' # join_comma (t # ss)"

fun js_string :: "json \<Rightarrow> string" where
  "js_string JUndefined = ''undefined''"
| "js_string JNull = ''null''"
| "js_string (JBool b) = (if b then ''true'' else ''false'')"
| "js_string (JNum n) = show_int n"
| "js_string (JStr s) = s"
| "js_string (JArr xs) = join_comma (map (\<lambda>x. if nullish x then [] else js_string x) xs)"
| "js_string (JObj kv) = ''[object Object]''"

section \<open>The socket server: state and outputs\<close>

text \<open>
  \<open>io.to(room).emit\<close>, \<open>socket.to(room).emit\<close> (every member of the room but the emitting
  socket) and \<open>socket.broadcast.emit\<close> (every socket but the emitting one).
\<close>

datatype target =
    IoTo json
  | SocketTo string json
  | SocketBroadcast string

type_synonym emission = "target \<times> string \<times> json"

text \<open>
  A \<open>console.log\<close> line with its text and the values printed after it, or a
  \<open>console.error\<close> line with the exception caught. The pictographs that start some of the
  texts in the source are left out.
\<close>

datatype logline =
    ConsoleLog string "json list"
  | ConsoleError string exn

text \<open>
  \<open>connectedUsers\<close> is the module's \<open>Map\<close> from user id to socket id; user ids are strings
  or numbers, which a \<open>Map\<close> compares by value. \<open>sockets\<close> (the live
  sockets, each with the \<open>userId\<close> the middleware stored on it) and \<open>rooms\<close> (the room
  memberships) are the library's tables that \<open>socket.join\<close>, \<open>socket.leave\<close> and a
  disconnect change. \<open>reactionRows\<close> is the persisted reaction table, one row per
  (messageId, userId, emoji).
\<close>

record state =
  connectedUsers :: "json \<rightharpoonup> string"
  sockets :: "string \<rightharpoonup> json"
  rooms :: "(string \<times> json) list"
  reactionRows :: "(json \<times> json \<times> json) list"

definition init :: state where
  "init = \<lparr>connectedUsers = Map.empty, sockets = Map.empty, rooms = [], reactionRows = []\<rparr>"

text \<open>What running a handler leaves behind; \<open>thrown\<close> is the exception that escaped it.\<close>

record outcome =
  st :: state
  emits :: "emission list"
  logs :: "logline list"
  thrown :: "exn option"

definition user_room :: "json \<Rightarrow> json" where
  "user_room uid = JStr (''user_'' @ js_string uid)"

definition socket_join :: "string \<Rightarrow> json \<Rightarrow> state \<Rightarrow> state" where
  "socket_join sid room s = s\<lparr>rooms := List.insert (sid, room) (rooms s)\<rparr>"

definition socket_leave :: "string \<Rightarrow> json \<Rightarrow> state \<Rightarrow> state" where
  "socket_leave sid room s = s\<lparr>rooms := removeAll (sid, room) (rooms s)\<rparr>"

subsection \<open>Authentication middleware and connection\<close>

text \<open>
  \<open>io.use\<close>: \<open>verify\<close> stands for \<open>jwt.verify(token, process.env.SECRET_KEY)\<close>, \<open>None\<close> when it
  throws. Every exception inside the \<open>try\<close> ends in \<open>next(new Error('Authentication error'))\<close>.
  The result is the \<open>userId\<close> stored on the socket.
\<close>

definition authMiddleware :: "(json \<Rightarrow> json option) \<Rightarrow> json \<Rightarrow> exn + json" where
  "authMiddleware verify auth =
     (if nullish auth then Inl AuthenticationError
      else let token = get auth ''token'' in
        if \<not> truthy token then Inl AuthenticationError
        else (case verify token of
                None \<Rightarrow> Inl AuthenticationError
              | Some decoded \<Rightarrow>
                  if nullish decoded then Inl AuthenticationError
                  else Inr (get decoded ''userId'')))"

text \<open>The body of \<open>io.on('connection')\<close> before the event handlers are installed.\<close>

definition onConnection :: "string \<Rightarrow> json \<Rightarrow> state \<Rightarrow> outcome" where
  "onConnection sid uid s =
     \<lparr>st = (socket_join sid (user_room uid) (s\<lparr>sockets := (sockets s)(sid \<mapsto> uid)\<rparr>))
              \<lparr>connectedUsers := (connectedUsers s)(uid \<mapsto> sid)\<rparr>,
      emits = [],
      logs = [ConsoleLog (''User connected: '' @ js_string uid) []],
      thrown = None\<rparr>"

text \<open>
  A connection attempt: the library runs the middleware first and fires \<open>connection\<close> only
  when \<open>next()\<close> was called without an error. For a refused connection \<open>thrown\<close> holds
  the error given to \<open>next\<close>.
\<close>

definition connect :: "(json \<Rightarrow> json option) \<Rightarrow> string \<Rightarrow> json \<Rightarrow> state \<Rightarrow> outcome" where
  "connect verify sid auth s =
     (case authMiddleware verify auth of
        Inl e \<Rightarrow> \<lparr>st = s, emits = [], logs = [], thrown = Some e\<rparr>
      | Inr uid \<Rightarrow> onConnection sid uid s)"

subsection \<open>Disconnect and lookup\<close>

text \<open>
  \<open>socket.on('disconnect')\<close>. The library has already taken the socket out of its rooms
  and its socket table when the handler runs.
\<close>

definition onDisconnect :: "string \<Rightarrow> json \<Rightarrow> state \<Rightarrow> outcome" where
  "onDisconnect sid uid s =
     \<lparr>st = s\<lparr>connectedUsers := (connectedUsers s)(uid := None),
              sockets := (sockets s)(sid := None),
              rooms := filter (\<lambda>(x, r). x \<noteq> sid) (rooms s)\<rparr>,
      emits = [(SocketBroadcast sid, ''userStatusUpdate'',
                JObj [(''userId'', uid), (''status'', JStr ''offline'')])],
      logs = [ConsoleLog (''User disconnected: '' @ js_string uid) []],
      thrown = None\<rparr>"

definition getReceiverSocketId :: "state \<Rightarrow> json \<Rightarrow> string option" where
  "getReceiverSocketId s userId = connectedUsers s userId"


text \<open>
  The connection life cycle as the server sees it: a connection attempt with its
  \<open>handshake.auth\<close> object, or the disconnect of a socket. A disconnect of a socket that is
  not connected does nothing.
\<close>

datatype conn_event = Connect string json | Disconnect string

definition conn_step :: "(json \<Rightarrow> json option) \<Rightarrow> conn_event \<Rightarrow> state \<Rightarrow> outcome" where
  "conn_step verify ev s =
     (case ev of
        Connect sid auth \<Rightarrow> connect verify sid auth s
      | Disconnect sid \<Rightarrow>
          (case sockets s sid of
             None \<Rightarrow> \<lparr>st = s, emits = [], logs = [], thrown = None\<rparr>
           | Some uid \<Rightarrow> onDisconnect sid uid s))"

text \<open>A sequence of life-cycle events: the final state and everything emitted, in order.\<close>

fun run :: "(json \<Rightarrow> json option) \<Rightarrow> conn_event list \<Rightarrow> state \<Rightarrow> state \<times> emission list" where
  "run verify [] s = (s, [])"
| "run verify (ev # evs) s =
     (let out = conn_step verify ev s;
          (s', es) = run verify evs (st out)
      in (s', emits out @ es))"

definition offline_of :: "json \<Rightarrow> emission \<Rightarrow> bool" where
  "offline_of uid e =
     (case e of (t, name, payload) \<Rightarrow>
        name = ''userStatusUpdate'' \<and> get payload ''userId'' = uid
        \<and> get payload ''status'' = JStr ''offline'')"

definition online_of :: "json \<Rightarrow> emission \<Rightarrow> bool" where
  "online_of uid e =
     (case e of (t, name, payload) \<Rightarrow>
        name = ''userStatusUpdate'' \<and> get payload ''userId'' = uid
        \<and> get payload ''status'' = JStr ''online'')"

subsection \<open>Event handlers\<close>

text \<open>
  Each handler runs on a socket (\<open>sid\<close>, with the \<open>uid\<close> the middleware stored). A handler
  whose parameter is a destructuring pattern throws a TypeError on a null or undefined
  payload before its body runs.
\<close>

definition ok :: "state \<Rightarrow> emission list \<Rightarrow> logline list \<Rightarrow> outcome" where
  "ok s es ls = \<lparr>st = s, emits = es, logs = ls, thrown = None\<rparr>"

definition throw :: "state \<Rightarrow> emission list \<Rightarrow> logline list \<Rightarrow> exn \<Rightarrow> outcome" where
  "throw s es ls e = \<lparr>st = s, emits = es, logs = ls, thrown = Some e\<rparr>"

definition on_joinConversation :: "string \<Rightarrow> json \<Rightarrow> json \<Rightarrow> state \<Rightarrow> outcome" where
  "on_joinConversation sid uid p s =
     (if nullish p then throw s [] [] TypeError
      else let conversationId = get p ''conversationId'' in
        ok (socket_join sid conversationId s) []
           [ConsoleLog (''User '' @ js_string uid @ '' joined conversation ''
                        @ js_string conversationId) []])"

definition on_leaveConversation :: "string \<Rightarrow> json \<Rightarrow> json \<Rightarrow> state \<Rightarrow> outcome" where
  "on_leaveConversation sid uid p s =
     (if nullish p then throw s [] [] TypeError
      else let conversationId = get p ''conversationId'' in
        ok (socket_leave sid conversationId s) []
           [ConsoleLog (''User '' @ js_string uid @ '' left conversation ''
                        @ js_string conversationId) []])"

text \<open>
  The persistence collaborator (Prisma), as the handlers use it: the dynamic import and
  client construction, \<open>notification.create\<close>, the reaction write (\<open>upsert\<close> or
  \<open>deleteMany\<close>) and \<open>$disconnect\<close>. Each may throw.
\<close>

record persistence =
  importPrisma :: "exn option"
  notificationCreate :: "json \<Rightarrow> exn + json"
  reactionWrite :: "exn option"
  prismaDisconnect :: "exn option"






definition on_typing :: "string \<Rightarrow> json \<Rightarrow> json \<Rightarrow> state \<Rightarrow> outcome" where
  "on_typing sid uid p s =
     (if nullish p then throw s [] [] TypeError
      else ok s [(SocketTo sid (get p ''conversationId''), ''userTyping'',
                  JObj [(''userId'', uid), (''isTyping'', get p ''isTyping'')])] [])"

definition on_updateStatus :: "string \<Rightarrow> json \<Rightarrow> json \<Rightarrow> state \<Rightarrow> outcome" where
  "on_updateStatus sid uid p s =
     (if nullish p then throw s [] [] TypeError
      else ok s [(SocketBroadcast sid, ''userStatusUpdate'',
                  JObj [(''userId'', uid), (''status'', get p ''status'')])] [])"

definition on_deleteMessage :: "string \<Rightarrow> json \<Rightarrow> json \<Rightarrow> state \<Rightarrow> outcome" where
  "on_deleteMessage sid uid p s =
     (if nullish p then throw s [] [] TypeError
      else ok s [(SocketTo sid (get p ''conversationId''), ''messageDeleted'',
                  JObj [(''messageId'', get p ''messageId'')])] [])"

text \<open>
  Modelled from the spec: the reaction table and Prisma's \<open>upsert\<close> and \<open>deleteMany\<close> on it
  are not among the sources. A reaction is keyed by (messageId, userId, emoji) with at most
  one row per key; \<open>upsert\<close> with an empty update inserts the row when the key is absent and
  leaves the table as it is otherwise; \<open>deleteMany\<close> deletes the matching rows.
\<close>

definition upsert :: "json \<times> json \<times> json \<Rightarrow> (json \<times> json \<times> json) list \<Rightarrow> (json \<times> json \<times> json) list" where
  "upsert key rows' = (if key \<in> set rows' then rows' else rows' @ [key])"

definition deleteMany :: "json \<times> json \<times> json \<Rightarrow> (json \<times> json \<times> json) list \<Rightarrow> (json \<times> json \<times> json) list" where
  "deleteMany key rows' = filter (\<lambda>r. r \<noteq> key) rows'"

text \<open>
  The \<open>try\<close> block of \<open>messageReaction\<close>: the table after it and what \<open>console.error\<close>
  logged. A write that throws leaves the table as it was.
\<close>

definition persistReaction ::
  "persistence \<Rightarrow> json \<Rightarrow> json \<times> json \<times> json \<Rightarrow> (json \<times> json \<times> json) list
     \<Rightarrow> (json \<times> json \<times> json) list \<times> logline list" where
  "persistReaction db action key rows' =
     (case importPrisma db of
        Some e \<Rightarrow> (rows', [ConsoleError ''Error handling reaction in database:'' e])
      | None \<Rightarrow>
          if strict_eq action (JStr ''add'') \<or> strict_eq action (JStr ''remove'') then
            (case reactionWrite db of
               Some e \<Rightarrow> (rows', [ConsoleError ''Error handling reaction in database:'' e])
             | None \<Rightarrow>
                 ((if strict_eq action (JStr ''add'') then upsert key rows'
                   else deleteMany key rows'),
                  (case prismaDisconnect db of
                     Some e \<Rightarrow> [ConsoleError ''Error handling reaction in database:'' e]
                   | None \<Rightarrow> [])))
          else
            (rows',
             (case prismaDisconnect db of
                Some e \<Rightarrow> [ConsoleError ''Error handling reaction in database:'' e]
              | None \<Rightarrow> [])))"

definition on_messageReaction :: "persistence \<Rightarrow> string \<Rightarrow> json \<Rightarrow> json \<Rightarrow> state \<Rightarrow> outcome" where
  "on_messageReaction db sid uid p s =
     (if nullish p then throw s [] [] TypeError
      else
        let messageId = get p ''messageId''; emoji = get p ''emoji'';
            action = get p ''action''; conversationId = get p ''conversationId'';
            l0 = [ConsoleLog ''Message reaction:''
                    [JObj [(''messageId'', messageId), (''emoji'', emoji),
                           (''action'', action), (''userId'', uid)]]]
        in (case persistReaction db action (messageId, uid, emoji) (reactionRows s) of
              (rows', l1) \<Rightarrow>
                ok (s\<lparr>reactionRows := rows'\<rparr>)
                   [(IoTo conversationId, ''messageReaction'',
                     JObj [(''messageId'', messageId), (''emoji'', emoji),
                           (''action'', action), (''userId'', uid)])]
                   (l0 @ l1)))"

text \<open>
  \<open>participantIds.forEach(...)\<close>: only an array has the method; on anything else the call
  throws a TypeError. \<open>[...participantIds, newMemberId]\<close> iterates its operand: an array
  gives its elements, a string its characters, anything else throws.
\<close>

definition for_each :: "json \<Rightarrow> (json \<Rightarrow> emission) \<Rightarrow> exn + emission list" where
  "for_each xs f = (case xs of JArr ys \<Rightarrow> Inr (map f ys) | _ \<Rightarrow> Inl TypeError)"


definition finish :: "state \<Rightarrow> logline list \<Rightarrow> exn + emission list \<Rightarrow> outcome" where
  "finish s ls r = (case r of Inl e \<Rightarrow> throw s [] ls e | Inr es \<Rightarrow> ok s es ls)"


definition on_groupUpdated :: "string \<Rightarrow> json \<Rightarrow> json \<Rightarrow> state \<Rightarrow> outcome" where
  "on_groupUpdated sid uid p s =
     (if nullish p then throw s [] [] TypeError
      else let group = get p ''group''; participantIds = get p ''participantIds'' in
        if nullish group then throw s [] [] TypeError
        else finish s [ConsoleLog ''Group updated:'' [get group ''id'']]
               (for_each participantIds
                  (\<lambda>participantId. (SocketTo sid (user_room participantId), ''groupUpdate'', group))))"



definition on_memberRemoved :: "string \<Rightarrow> json \<Rightarrow> json \<Rightarrow> state \<Rightarrow> outcome" where
  "on_memberRemoved sid uid p s =
     (if nullish p then throw s [] [] TypeError
      else let group = get p ''group''; removedMemberId = get p ''removedMemberId'';
               participantIds = get p ''participantIds'' in
        if nullish group then throw s [] [] TypeError
        else finish s [ConsoleLog ''Member removed from group:'' [get group ''id'']]
               (case for_each participantIds
                       (\<lambda>participantId.
                          (SocketTo sid (user_room participantId), ''groupMemberRemoved'',
                           JObj [(''group'', group), (''removedMemberId'', removedMemberId)])) of
                  Inl e \<Rightarrow> Inl e
                | Inr es \<Rightarrow>
                    Inr (es @ [(SocketTo sid (user_room removedMemberId), ''removedFromGroup'',
                                JObj [(''group'', group)])])))"

definition on_groupDeleted :: "string \<Rightarrow> json \<Rightarrow> json \<Rightarrow> state \<Rightarrow> outcome" where
  "on_groupDeleted sid uid p s =
     (if nullish p then throw s [] [] TypeError
      else let groupId = get p ''groupId''; participantIds = get p ''participantIds'' in
        finish s [ConsoleLog ''Group deleted:'' [groupId]]
          (for_each participantIds
             (\<lambda>participantId. (SocketTo sid (user_room participantId), ''groupDeleted'',
                                JObj [(''groupId'', groupId)]))))"

definition on_adminRoleChanged :: "string \<Rightarrow> json \<Rightarrow> json \<Rightarrow> state \<Rightarrow> outcome" where
  "on_adminRoleChanged sid uid p s =
     (if nullish p then throw s [] [] TypeError
      else let group = get p ''group''; userId = get p ''userId''; action = get p ''action'';
               participantIds = get p ''participantIds'' in
        if nullish group then throw s [] [] TypeError
        else finish s [ConsoleLog ''Admin role changed:''
                         [JObj [(''groupId'', get group ''id''), (''userId'', userId),
                                (''action'', action)]]]
               (for_each participantIds
                  (\<lambda>participantId.
                     (SocketTo sid (user_room participantId), ''groupAdminChanged'',
                      JObj [(''group'', group), (''userId'', userId), (''action'', action)]))))"

section \<open>The client: messaging hub state and handlers\<close>

text \<open>
  The React state of the messaging hub that the handlers read and write. The state
  setters are functional updates (\<open>setMessages(prev => ...)\<close>), modelled as updates of the
  record. Entries of \<open>messages\<close> and \<open>conversations\<close> are never null or undefined, so a
  property read on an entry does not throw.

  \<open>listener\<close> is the socket listener for \<open>receiveMessage\<close>. It is installed by an effect
  with the dependencies \<open>[socket, user]\<close>, and it calls the \<open>handleNewMessage\<close> of the render
  in which that effect ran: the \<open>selectedConversation\<close> it reads is the one of that render,
  kept here with the listener. \<open>None\<close> means that no listener is installed.

  \<open>messageReactions\<close> holds the own keys of the reactions object (one per message id) and,
  under each, the own keys of the object of that message (one per emoji) with their
  values, arrays of user ids as a rule. An object key is the string form of the value used
  as key.
\<close>

record client =
  user :: json
  socketReady :: bool
  selectedConversation :: json
  listener :: "json option"
  messages :: "json list"
  aiMessages :: "json list"
  conversations :: "json list"
  newMessage :: string
  selectedFile :: json
  isUploading :: bool
  messageReactions :: "string \<rightharpoonup> (string \<rightharpoonup> json)"

subsection \<open>Incoming messages\<close>

text \<open>
  The effect \<open>useEffect(() => { if (socket && user) { ... socket.on(...) } }, [socket, user])\<close>,
  run when the socket or the user changes: the clean-up of the previous run has removed the
  old listeners, and the new ones close over the current render.
\<close>

definition setupListeners :: "client \<Rightarrow> client" where
  "setupListeners c =
     (if socketReady c \<and> truthy (user c) then c\<lparr>listener := Some (selectedConversation c)\<rparr>
      else c\<lparr>listener := None\<rparr>)"

text \<open>
  \<open>setSelectedConversation\<close>: the state changes, the effect above does not run again and
  the installed listener stays as it is.
\<close>

definition setSelectedConversation :: "json \<Rightarrow> client \<Rightarrow> client" where
  "setSelectedConversation conversation c = c\<lparr>selectedConversation := conversation\<rparr>"

text \<open>
  \<open>Math.abs(new Date(a) - new Date(b)) < 5000\<close>; \<open>date\<close> stands for \<open>new Date(v)\<close> as
  milliseconds, \<open>None\<close> for an invalid date, whose difference is NaN and compares false.
\<close>

definition within_window :: "(json \<Rightarrow> int option) \<Rightarrow> json \<Rightarrow> json \<Rightarrow> bool" where
  "within_window date a b =
     (case (date a, date b) of
        (Some x, Some y) \<Rightarrow> \<bar>x - y\<bar> < 5000
      | _ \<Rightarrow> False)"

text \<open>The predicate given to \<open>prev.find\<close> in \<open>handleNewMessage\<close>.\<close>

definition isDuplicate :: "(json \<Rightarrow> int option) \<Rightarrow> json \<Rightarrow> json \<Rightarrow> bool" where
  "isDuplicate date message m =
     (strict_eq (get m ''id'') (get message ''id'')
      \<or> (truthy (get m ''tempId'') \<and> strict_eq (get m ''tempId'') (get message ''tempId''))
      \<or> (strict_eq (get m ''message'') (get message ''message'')
          \<and> strict_eq (get m ''senderId'') (get message ''senderId'')
          \<and> within_window date (get m ''createdAt'') (get message ''createdAt'')))"

text \<open>
  \<open>(conv.unreadCount || 0) + 1\<close>: addition on a number, concatenation on a string (and on
  an array or object, through its string form).
\<close>

definition plus_one :: "json \<Rightarrow> json" where
  "plus_one v =
     (case or_else v (JNum 0) of
        JNum n \<Rightarrow> JNum (n + 1)
      | JBool b \<Rightarrow> JNum (if b then 2 else 1)
      | w \<Rightarrow> JStr (js_string w @ ''1''))"

definition update_conv :: "json \<Rightarrow> bool \<Rightarrow> json \<Rightarrow> json" where
  "update_conv message unread conv =
     (if strict_eq (get conv ''id'') (get message ''conversationId'') then
        (let kv = obj_set (obj_set (spread conv) ''lastMessage'' message)
                          ''updatedAt'' (get message ''createdAt'')
         in JObj (if unread then obj_set kv ''unreadCount'' (plus_one (get conv ''unreadCount''))
                  else kv))
      else conv)"

text \<open>
  \<open>setMessages(prev => ...)\<close> in \<open>handleNewMessage\<close>: \<open>find\<close> returns the first entry that
  satisfies the predicate, and the entry found is then tested for truthiness.
\<close>

definition add_if_new :: "(json \<Rightarrow> int option) \<Rightarrow> json \<Rightarrow> json list \<Rightarrow> json list" where
  "add_if_new date message prev =
     (case find (isDuplicate date message) prev of
        Some m \<Rightarrow> if truthy m then prev else prev @ [message]
      | None \<Rightarrow> prev @ [message])"

text \<open>
  \<open>handleNewMessage\<close>, with the \<open>selectedConversation\<close> of the render it belongs to. The
  state setters it calls work on the current state.
\<close>

definition handleNewMessage ::
  "(json \<Rightarrow> int option) \<Rightarrow> json \<Rightarrow> json \<Rightarrow> client \<Rightarrow> exn + client" where
  "handleNewMessage date sel message c =
     (if truthy (opt_get sel ''isAI'') then Inr c
      else if nullish message then Inl TypeError
      else if strict_eq (get message ''conversationId'') (opt_get sel ''id'')
              \<and> \<not> truthy (opt_get sel ''isAI'')
      then Inr (c\<lparr>messages := add_if_new date message (messages c),
                  conversations := map (update_conv message False) (conversations c)\<rparr>)
      else Inr (c\<lparr>conversations := map (update_conv message True) (conversations c)\<rparr>))"

text \<open>
  A \<open>receiveMessage\<close> event arriving at the client: the installed listener, if any, calls
  the \<open>handleNewMessage\<close> it closed over.
\<close>

definition handleReceiveMessage :: "(json \<Rightarrow> int option) \<Rightarrow> json \<Rightarrow> client \<Rightarrow> exn + client" where
  "handleReceiveMessage date message c =
     (case listener c of
        None \<Rightarrow> Inr c
      | Some sel \<Rightarrow> handleNewMessage date sel message c)"

text \<open>Events delivered one after the other.\<close>

fun deliver :: "(json \<Rightarrow> int option) \<Rightarrow> json list \<Rightarrow> client \<Rightarrow> exn + client" where
  "deliver date [] c = Inr c"
| "deliver date (m # ms) c =
     (case handleReceiveMessage date m c of Inl e \<Rightarrow> Inl e | Inr c' \<Rightarrow> deliver date ms c')"

subsection \<open>Incoming reactions\<close>

text \<open>
  The reactions object and the object of each message are plain objects, so a read
  \<open>prev[messageId]\<close> or \<open>currentReactions[emoji]\<close> with a key that is not an own key finds the
  member of \<open>Object.prototype\<close> of that name, if there is one: a built-in function, or
  \<open>Object.prototype\<close> itself for \<open>__proto__\<close>.
\<close>

definition object_prototype_member :: "string \<Rightarrow> bool" where
  "object_prototype_member k =
     (k \<in> set [''constructor'', ''__proto__'', ''hasOwnProperty'', ''isPrototypeOf'',
               ''propertyIsEnumerable'', ''toLocaleString'', ''toString'', ''valueOf'',
               ''__defineGetter__'', ''__defineSetter__'', ''__lookupGetter__'',
               ''__lookupSetter__''])"

text \<open>
  What a read finds: a JSON value, or a built-in function or object of the runtime. A
  built-in is truthy, is not iterable, has no enumerable own keys and has no \<open>includes\<close>
  or \<open>filter\<close> method.
\<close>

datatype looked = Data json | Builtin

text \<open>
  \<open>prev[messageId] || {}\<close>: a plain object with its own keys, or the member of
  \<open>Object.prototype\<close> of that name.
\<close>

datatype holder = Plain "string \<rightharpoonup> json" | Inherited string

definition reactions_of :: "client \<Rightarrow> string \<Rightarrow> holder" where
  "reactions_of c k =
     (case messageReactions c k of
        Some m \<Rightarrow> Plain m
      | None \<Rightarrow> if object_prototype_member k then Inherited k else Plain Map.empty)"

text \<open>
  \<open>currentReactions[emoji]\<close>. A read on a built-in is the runtime's: \<open>builtin_read n k\<close>
  stands for the read of key \<open>k\<close> on the member \<open>n\<close> of \<open>Object.prototype\<close>, which may find
  a value, find another built-in, or throw.
\<close>

definition users_of :: "(string \<Rightarrow> string \<Rightarrow> exn + looked) \<Rightarrow> holder \<Rightarrow> string \<Rightarrow> exn + looked" where
  "users_of builtin_read h k =
     (case h of
        Plain m \<Rightarrow>
          (case m k of
             Some v \<Rightarrow> Inr (Data v)
           | None \<Rightarrow> if object_prototype_member k then Inr Builtin else Inr (Data JUndefined))
      | Inherited n \<Rightarrow> builtin_read n k)"

text \<open>\<open>x || []\<close>\<close>

definition or_empty :: "looked \<Rightarrow> looked" where
  "or_empty x = (case x of Builtin \<Rightarrow> Builtin
                 | Data v \<Rightarrow> if truthy v then Data v else Data (JArr []))"

text \<open>\<open>{...currentReactions}\<close>\<close>

definition own_keys :: "holder \<Rightarrow> (string \<rightharpoonup> json)" where
  "own_keys h = (case h of Plain m \<Rightarrow> m | Inherited n \<Rightarrow> Map.empty)"

definition array_includes :: "json list \<Rightarrow> json \<Rightarrow> bool" where
  "array_includes xs v = list_ex (\<lambda>x. strict_eq x v) xs"

definition without :: "json list \<Rightarrow> json \<Rightarrow> json list" where
  "without xs v = filter (\<lambda>x. \<not> strict_eq x v) xs"

text \<open>\<open>t.includes(u)\<close> on strings: \<open>u\<close> occurs in \<open>t\<close> as a run of characters.\<close>

fun starts_with :: "string \<Rightarrow> string \<Rightarrow> bool" where
  "starts_with t [] = True"
| "starts_with [] (x # u) = False"
| "starts_with (y # t) (x # u) = (y = x \<and> starts_with t u)"

fun contains :: "string \<Rightarrow> string \<Rightarrow> bool" where
  "contains [] u = (u = [])"
| "contains (y # t) u = (starts_with (y # t) u \<or> contains t u)"

text \<open>
  \<open>v.includes(userId)\<close>, \<open>[...v, userId]\<close> and \<open>v.filter(id => id !== userId)\<close> on a truthy
  value: an array has all three, a string has \<open>includes\<close> (on the string form of the
  argument) and can be spread into its characters, anything else throws a TypeError.
\<close>

definition includes_js :: "json \<Rightarrow> json \<Rightarrow> exn + bool" where
  "includes_js v u =
     (case v of JArr xs \<Rightarrow> Inr (array_includes xs u)
      | JStr t \<Rightarrow> Inr (contains t (js_string u))
      | _ \<Rightarrow> Inl TypeError)"

definition spread_with :: "json \<Rightarrow> json \<Rightarrow> exn + json" where
  "spread_with v u =
     (case v of JArr xs \<Rightarrow> Inr (JArr (xs @ [u]))
      | JStr t \<Rightarrow> Inr (JArr (map (\<lambda>ch. JStr [ch]) t @ [u]))
      | _ \<Rightarrow> Inl TypeError)"

definition filter_out :: "json \<Rightarrow> json \<Rightarrow> exn + json" where
  "filter_out v u = (case v of JArr xs \<Rightarrow> Inr (JArr (without xs u)) | _ \<Rightarrow> Inl TypeError)"

text \<open>The computation of \<open>updatedEmojiUsers\<close> from \<open>currentEmojiUsers\<close>.\<close>

definition updatedEmojiUsers :: "json \<Rightarrow> looked \<Rightarrow> json \<Rightarrow> exn + json" where
  "updatedEmojiUsers action currentEmojiUsers userId =
     (case currentEmojiUsers of
        Builtin \<Rightarrow> Inl TypeError
      | Data v \<Rightarrow>
          if strict_eq action (JStr ''add'') then
            (case includes_js v userId of
               Inl e \<Rightarrow> Inl e
             | Inr present \<Rightarrow> if present then Inr v else spread_with v userId)
          else if strict_eq action (JStr ''remove'') then filter_out v userId
          else
            (case includes_js v userId of
               Inl e \<Rightarrow> Inl e
             | Inr present \<Rightarrow> if present then filter_out v userId else spread_with v userId))"

text \<open>
  \<open>handleMessageReactionFromSocket\<close>: the update of \<open>messageReactions\<close>, or the TypeError
  thrown by the destructuring of a null or undefined event or inside the update, which
  then leaves the state as it was.
\<close>

definition handleMessageReactionFromSocket ::
  "(string \<Rightarrow> string \<Rightarrow> exn + looked) \<Rightarrow> json \<Rightarrow> client \<Rightarrow> exn + client" where
  "handleMessageReactionFromSocket builtin_read r c =
     (if nullish r then Inl TypeError
      else
        let messageId = get r ''messageId''; emoji = get r ''emoji'';
            userId = get r ''userId''; action = get r ''action'';
            currentReactions = reactions_of c (js_string messageId)
        in (case users_of builtin_read currentReactions (js_string emoji) of
              Inl e \<Rightarrow> Inl e
            | Inr x \<Rightarrow>
                (case updatedEmojiUsers action (or_empty x) userId of
                   Inl e \<Rightarrow> Inl e
                 | Inr updated \<Rightarrow>
                     Inr (c\<lparr>messageReactions :=
                              (messageReactions c)(js_string messageId \<mapsto>
                                 (own_keys currentReactions)(js_string emoji \<mapsto> updated))\<rparr>))))"

text \<open>
  The optimistic update of \<open>onAddReaction\<close>, made by the client of the user who reacts
  before the event is emitted:
  \<open>{...prev, [messageId]: {...prev[messageId], [emoji]: [...(prev[messageId]?.[emoji] || []), user.id]}}\<close>.
  The user id is appended without a look at the list.
\<close>

definition onAddReaction ::
  "(string \<Rightarrow> string \<Rightarrow> exn + looked) \<Rightarrow> json \<Rightarrow> json \<Rightarrow> client \<Rightarrow> exn + client" where
  "onAddReaction builtin_read messageId emoji c =
     (let own = messageReactions c (js_string messageId);
          found = (case own of
                     Some m \<Rightarrow> users_of builtin_read (Plain m) (js_string emoji)
                   | None \<Rightarrow>
                       if object_prototype_member (js_string messageId)
                       then builtin_read (js_string messageId) (js_string emoji)
                       else Inr (Data JUndefined))
      in (case found of
            Inl e \<Rightarrow> Inl e
          | Inr x \<Rightarrow>
              (case or_empty x of
                 Builtin \<Rightarrow> Inl TypeError
               | Data v \<Rightarrow>
                   if nullish (user c) then Inl TypeError
                   else (case spread_with v (get (user c) ''id'') of
                           Inl e \<Rightarrow> Inl e
                         | Inr updated \<Rightarrow>
                             Inr (c\<lparr>messageReactions :=
                                      (messageReactions c)(js_string messageId \<mapsto>
                                         (case own of Some m \<Rightarrow> m | None \<Rightarrow> Map.empty)
                                           (js_string emoji \<mapsto> updated))\<rparr>)))))"

text \<open>
  The same reaction event handled by the server a number of times on one socket, each time
  with its own persistence outcome.
\<close>

fun reactions_on_server :: "persistence list \<Rightarrow> string \<Rightarrow> json \<Rightarrow> json \<Rightarrow> state \<Rightarrow> state" where
  "reactions_on_server [] sid uid p s = s"
| "reactions_on_server (db # dbs) sid uid p s =
     reactions_on_server dbs sid uid p (st (on_messageReaction db sid uid p s))"

definition resolves :: "persistence \<Rightarrow> bool" where
  "resolves db = (importPrisma db = None \<and> reactionWrite db = None)"

subsection \<open>Sending a message\<close>












section \<open>Notions used in the properties\<close>



text \<open>The \<open>userId\<close> fields of the payloads a handler emitted.\<close>

definition actor_ids :: "outcome \<Rightarrow> json list" where
  "actor_ids out = map (\<lambda>(t, name, payload). get payload ''userId'') (emits out)"


text \<open>
  The payload of the \<open>messageReaction\<close> broadcast for an inbound payload \<open>p\<close> on a socket
  of user \<open>uid\<close>, and the key of the reaction row it stands for.
\<close>

definition reaction_event :: "json \<Rightarrow> json \<Rightarrow> json" where
  "reaction_event p uid =
     JObj [(''messageId'', get p ''messageId''), (''emoji'', get p ''emoji''),
           (''action'', get p ''action''), (''userId'', uid)]"

definition reaction_key :: "json \<Rightarrow> json \<Rightarrow> json \<times> json \<times> json" where
  "reaction_key p uid = (get p ''messageId'', uid, get p ''emoji'')"

text \<open>
  The own value stored for a message id and an emoji (undefined when there is none), and
  a number of client steps taken one after the other, up to the first that throws.
\<close>

definition emoji_users :: "client \<Rightarrow> json \<Rightarrow> json \<Rightarrow> json" where
  "emoji_users c messageId emoji =
     (case messageReactions c (js_string messageId) of
        None \<Rightarrow> JUndefined
      | Some m \<Rightarrow> (case m (js_string emoji) of None \<Rightarrow> JUndefined | Some v \<Rightarrow> v))"

fun steps :: "(client \<Rightarrow> exn + client) list \<Rightarrow> client \<Rightarrow> exn + client" where
  "steps [] c = Inr c"
| "steps (f # fs) c = (case f c of Inl e \<Rightarrow> Inl e | Inr c' \<Rightarrow> steps fs c')"

section \<open>Sample inputs\<close>

text \<open>A verifier that accepts the token \<open>tokA\<close>, issued to user \<open>A\<close>, and no other.\<close>

definition verify_demo :: "json \<Rightarrow> json option" where
  "verify_demo token =
     (if token = JStr ''tokA'' then Some (JObj [(''userId'', JStr ''A'')]) else None)"

definition auth_demo :: json where
  "auth_demo = JObj [(''token'', JStr ''tokA'')]"

text \<open>A persistence layer whose every write throws, and a message from \<open>A\<close> to \<open>B\<close>.\<close>

definition db_failing :: persistence where
  "db_failing = \<lparr>importPrisma = None, notificationCreate = (\<lambda>arg. Inl PersistenceError),
                  reactionWrite = Some PersistenceError, prismaDisconnect = None\<rparr>"


text \<open>
  A persistence layer that works, an \<open>add\<close> reaction on message \<open>m1\<close>, the client of user
  \<open>A\<close> with conversation \<open>c1\<close> open and the draft \<open>hi\<close>, a clock that reads numbers as
  timestamps, and a send whose stored message gets the id \<open>m1\<close>.
\<close>

definition db_ok :: persistence where
  "db_ok = \<lparr>importPrisma = None, notificationCreate = (\<lambda>arg. Inr arg),
             reactionWrite = None, prismaDisconnect = None\<rparr>"

definition react_demo :: json where
  "react_demo = JObj [(''messageId'', JStr ''m1''), (''emoji'', JStr ''+1''),
                      (''action'', JStr ''add''), (''conversationId'', JStr ''c1'')]"

definition client_demo :: client where
  "client_demo = \<lparr>user = JObj [(''id'', JStr ''A''), (''username'', JStr ''alice'')],
                    socketReady = True,
                    selectedConversation = JObj [(''id'', JStr ''c1'')],
                    listener = None,
                    messages = [], aiMessages = [], conversations = [],
                    newMessage = ''hi'', selectedFile = JNull, isUploading = False,
                    messageReactions = Map.empty\<rparr>"

definition date_demo :: "json \<Rightarrow> int option" where
  "date_demo v = (case v of JNum n \<Rightarrow> Some n | _ \<Rightarrow> None)"


text \<open>
  The client of user \<open>A\<close> right after login, with no conversation open; the conversation
  \<open>c1\<close> with user \<open>B\<close>; two messages of \<open>B\<close> in it, sent two seconds apart; and an \<open>add\<close>
  reaction whose emoji is the string \<open>constructor\<close>.
\<close>

definition client_start :: client where
  "client_start = \<lparr>user = JObj [(''id'', JStr ''A''), (''username'', JStr ''alice'')],
                     socketReady = True,
                     selectedConversation = JNull,
                     listener = None,
                     messages = [], aiMessages = [],
                     conversations = [JObj [(''id'', JStr ''c1'')]],
                     newMessage = [], selectedFile = JNull, isUploading = False,
                     messageReactions = Map.empty\<rparr>"

definition conv_demo :: json where
  "conv_demo = JObj [(''id'', JStr ''c1'')]"

definition chat1 :: json where
  "chat1 = JObj [(''id'', JStr ''m1''), (''conversationId'', JStr ''c1''),
                 (''senderId'', JStr ''B''), (''content'', JStr ''hi''),
                 (''createdAt'', JNum 1000)]"

definition chat2 :: json where
  "chat2 = JObj [(''id'', JStr ''m2''), (''conversationId'', JStr ''c1''),
                 (''senderId'', JStr ''B''), (''content'', JStr ''see you''),
                 (''createdAt'', JNum 3000)]"

definition react_ctor :: json where
  "react_ctor = JObj [(''messageId'', JStr ''m1''), (''emoji'', JStr ''constructor''),
                      (''action'', JStr ''add''), (''conversationId'', JStr ''c1'')]"

section \<open>Presence: connection, lookup and disconnect\<close>

text \<open>
  C8. A connection attempt whose token is absent or fails verification is refused with an
  authentication error: the connection handler does not run, nothing is emitted and the
  state, the connected-users table included, is what it was. A verified token gives the
  \<open>userId\<close> of its payload as the identity of the socket, the middleware itself changes
  nothing else, and the connection handler then runs for that identity.
\<close>

theorem auth_refuses_before_registry:
  "(nullish auth \<or> \<not> truthy (get auth ''token'') \<or> verify (get auth ''token'') = None
      \<longrightarrow> connect verify sid auth s
            = \<lparr>st = s, emits = [], logs = [], thrown = Some AuthenticationError\<rparr>)
   \<and> (\<not> nullish auth \<and> truthy (get auth ''token'')
        \<and> verify (get auth ''token'') = Some decoded \<and> \<not> nullish decoded
      \<longrightarrow> authMiddleware verify auth = Inr (get decoded ''userId'')
          \<and> connect verify sid auth s = onConnection sid (get decoded ''userId'') s
          \<and> thrown (connect verify sid auth s) = None
          \<and> getReceiverSocketId (st (connect verify sid auth s)) (get decoded ''userId'')
              = Some sid)"
  by (auto simp: connect_def authMiddleware_def onConnection_def Let_def
                 getReceiverSocketId_def socket_join_def)

theorem auth_refuses_before_registry_witness:
  "connect verify_demo ''s1'' (JObj [(''token'', JStr ''bad'')]) init
     = \<lparr>st = init, emits = [], logs = [], thrown = Some AuthenticationError\<rparr>
   \<and> connect verify_demo ''s1'' (JObj []) init
     = \<lparr>st = init, emits = [], logs = [], thrown = Some AuthenticationError\<rparr>
   \<and> authMiddleware verify_demo auth_demo = Inr (JStr ''A'')
   \<and> getReceiverSocketId (st (connect verify_demo ''s1'' auth_demo init)) (JStr ''A'')
       = Some ''s1''"
  using auth_refuses_before_registry
          [where auth = "JObj [(''token'', JStr ''bad'')]" and verify = verify_demo
             and sid = "''s1''" and s = init]
        auth_refuses_before_registry
          [where auth = "JObj []" and verify = verify_demo and sid = "''s1''" and s = init]
        auth_refuses_before_registry
          [where auth = auth_demo and verify = verify_demo and sid = "''s1''" and s = init
             and decoded = "JObj [(''userId'', JStr ''A'')]"]
  by (auto simp: verify_demo_def auth_demo_def)

text \<open>
  C9. The connected-users table holds one socket id per identity. When the same identity
  connects on a second socket, the lookup returns the second socket id only. The
  disconnect of either socket removes the identity's entry, also while the other socket
  is still connected.
\<close>

theorem connected_users_single_handle:
  "getReceiverSocketId (st (onConnection s2 u (st (onConnection s1 u s)))) u = Some s2
   \<and> getReceiverSocketId
       (st (onDisconnect s1 u (st (onConnection s2 u (st (onConnection s1 u s)))))) u = None
   \<and> getReceiverSocketId
       (st (onDisconnect s2 u (st (onConnection s2 u (st (onConnection s1 u s)))))) u = None
   \<and> (s1 \<noteq> s2 \<longrightarrow>
        sockets (st (onDisconnect s1 u (st (onConnection s2 u (st (onConnection s1 u s))))))
          s2 = Some u)"
  by (simp add: getReceiverSocketId_def onConnection_def onDisconnect_def socket_join_def)

theorem connected_users_single_handle_witness:
  "getReceiverSocketId
     (st (onConnection ''s2'' (JStr ''A'') (st (onConnection ''s1'' (JStr ''A'') init))))
     (JStr ''A'') = Some ''s2''
   \<and> getReceiverSocketId
       (st (onDisconnect ''s1'' (JStr ''A'')
             (st (onConnection ''s2'' (JStr ''A'') (st (onConnection ''s1'' (JStr ''A'') init))))))
       (JStr ''A'') = None
   \<and> sockets
       (st (onDisconnect ''s1'' (JStr ''A'')
             (st (onConnection ''s2'' (JStr ''A'') (st (onConnection ''s1'' (JStr ''A'') init))))))
       ''s2'' = Some (JStr ''A'')"
  using connected_users_single_handle
          [where ?s1.0 = "''s1''" and ?s2.0 = "''s2''" and u = "JStr ''A''" and s = init]
  by simp

text \<open>
  C1, as the code has it. The disconnect of a socket removes its identity's entry from the
  connected-users table, so that a lookup for the identity finds nothing, takes the socket
  out of the live sockets, and emits one offline status broadcast for the identity. This
  happens at every disconnect, whether or not the identity has other live sockets.
\<close>

theorem disconnect_clears_entry_and_broadcasts_offline:
  "getReceiverSocketId (st (onDisconnect sid uid s)) uid = None
   \<and> sockets (st (onDisconnect sid uid s)) sid = None
   \<and> emits (onDisconnect sid uid s)
       = [(SocketBroadcast sid, ''userStatusUpdate'',
           JObj [(''userId'', uid), (''status'', JStr ''offline'')])]
   \<and> length (filter (offline_of uid) (emits (onDisconnect sid uid s))) = 1"
  by (simp add: getReceiverSocketId_def onDisconnect_def offline_of_def)

text \<open>
  C1, as stated, fails. User \<open>A\<close> connects on sockets \<open>s1\<close> and \<open>s2\<close>. When \<open>s1\<close> disconnects,
  \<open>s2\<close> is still live, yet the lookup for \<open>A\<close> finds nothing and an offline broadcast for
  \<open>A\<close> has been emitted; when \<open>s2\<close> disconnects too, a second one is emitted.
\<close>

theorem offline_broadcast_while_connection_live:
  "sockets (fst (run verify_demo
       [Connect ''s1'' auth_demo, Connect ''s2'' auth_demo, Disconnect ''s1''] init)) ''s2''
     = Some (JStr ''A'')
   \<and> getReceiverSocketId (fst (run verify_demo
       [Connect ''s1'' auth_demo, Connect ''s2'' auth_demo, Disconnect ''s1''] init)) (JStr ''A'')
     = None
   \<and> length (filter (offline_of (JStr ''A''))
        (snd (run verify_demo
           [Connect ''s1'' auth_demo, Connect ''s2'' auth_demo, Disconnect ''s1''] init))) = 1
   \<and> length (filter (offline_of (JStr ''A''))
        (snd (run verify_demo
           [Connect ''s1'' auth_demo, Connect ''s2'' auth_demo, Disconnect ''s1'',
            Disconnect ''s2''] init))) = 2"
  by (simp add: conn_step_def connect_def authMiddleware_def verify_demo_def auth_demo_def
        onConnection_def onDisconnect_def socket_join_def init_def getReceiverSocketId_def
        offline_of_def Let_def split: prod.splits)

text \<open>
  C6. The first connection of user \<open>A\<close> is accepted and entered in the connected-users
  table, and the connection handler emits nothing: no online status event is broadcast.
\<close>

theorem first_connection_emits_no_online:
  "thrown (connect verify_demo ''s1'' auth_demo init) = None
   \<and> getReceiverSocketId (st (connect verify_demo ''s1'' auth_demo init)) (JStr ''A'')
       = Some ''s1''
   \<and> emits (connect verify_demo ''s1'' auth_demo init) = []
   \<and> filter (online_of (JStr ''A'')) (emits (connect verify_demo ''s1'' auth_demo init)) = []"
  by (simp add: connect_def authMiddleware_def verify_demo_def auth_demo_def onConnection_def
        socket_join_def init_def getReceiverSocketId_def)

section \<open>Server event handlers\<close>



text \<open>
  C10. Every payload that the \<open>typing\<close>, \<open>updateStatus\<close> and \<open>messageReaction\<close> handlers
  emit carries as \<open>userId\<close> the identity stored on the socket by the middleware, whatever
  the inbound payload holds. For any two inbound payloads on the same socket the emitted
  user ids are the same.
\<close>

theorem emitted_actor_is_socket_identity:
  "set (actor_ids (on_typing sid uid p s)) \<subseteq> {uid}
   \<and> set (actor_ids (on_updateStatus sid uid p s)) \<subseteq> {uid}
   \<and> set (actor_ids (on_messageReaction db sid uid p s)) \<subseteq> {uid}
   \<and> (\<not> nullish p \<longrightarrow>
        actor_ids (on_typing sid uid p s) = [uid]
        \<and> actor_ids (on_updateStatus sid uid p s) = [uid]
        \<and> actor_ids (on_messageReaction db sid uid p s) = [uid])
   \<and> (\<not> nullish p \<and> \<not> nullish p' \<longrightarrow>
        actor_ids (on_typing sid uid p s) = actor_ids (on_typing sid uid p' s')
        \<and> actor_ids (on_updateStatus sid uid p s) = actor_ids (on_updateStatus sid uid p' s')
        \<and> actor_ids (on_messageReaction db sid uid p s)
            = actor_ids (on_messageReaction db' sid uid p' s'))"
  by (auto simp: actor_ids_def on_typing_def on_updateStatus_def on_messageReaction_def
        ok_def throw_def Let_def split: prod.splits)

theorem emitted_actor_is_socket_identity_witness:
  "actor_ids (on_typing ''s1'' (JStr ''A'')
      (JObj [(''conversationId'', JStr ''c1''), (''isTyping'', JBool True),
             (''userId'', JStr ''B'')]) init) = [JStr ''A'']
   \<and> actor_ids (on_updateStatus ''s1'' (JStr ''A'')
      (JObj [(''status'', JStr ''away''), (''userId'', JStr ''B'')]) init) = [JStr ''A'']
   \<and> actor_ids (on_messageReaction db_failing ''s1'' (JStr ''A'')
      (JObj [(''messageId'', JStr ''m1''), (''emoji'', JStr ''+1''), (''action'', JStr ''add''),
             (''conversationId'', JStr ''c1''), (''userId'', JStr ''B'')]) init) = [JStr ''A'']"
  using emitted_actor_is_socket_identity
          [where p = "JObj [(''conversationId'', JStr ''c1''), (''isTyping'', JBool True),
                            (''userId'', JStr ''B'')]"
             and sid = "''s1''" and uid = "JStr ''A''" and s = init and db = db_failing
             and p' = "JObj []" and s' = init and db' = db_failing]
        emitted_actor_is_socket_identity
          [where p = "JObj [(''status'', JStr ''away''), (''userId'', JStr ''B'')]"
             and sid = "''s1''" and uid = "JStr ''A''" and s = init and db = db_failing
             and p' = "JObj []" and s' = init and db' = db_failing]
        emitted_actor_is_socket_identity
          [where p = "JObj [(''messageId'', JStr ''m1''), (''emoji'', JStr ''+1''),
                            (''action'', JStr ''add''), (''conversationId'', JStr ''c1''),
                            (''userId'', JStr ''B'')]"
             and sid = "''s1''" and uid = "JStr ''A''" and s = init and db = db_failing
             and p' = "JObj []" and s' = init and db' = db_failing]
  by simp




section \<open>Reactions\<close>

subsection \<open>The reaction table\<close>




lemma strict_eq_refl: "strict_eq v v = primitive v"
  by (simp add: strict_eq_def)

lemma includes_iff: "primitive v \<Longrightarrow> array_includes xs v = (v \<in> set xs)"
  by (auto simp: array_includes_def list_ex_iff strict_eq_def)

lemma without_eq: "primitive v \<Longrightarrow> without xs v = filter (\<lambda>x. x \<noteq> v) xs"
  unfolding without_def strict_eq_def
  by (rule filter_cong) auto

lemma count_list_append1: "count_list (xs @ [y]) x = count_list xs x + (if x = y then 1 else 0)"
  by (induction xs) auto

lemma count_list_filter_le: "count_list (filter P xs) x \<le> count_list xs x"
  by (induction xs) auto

lemma count_list_member_one:
  "x \<in> set xs \<Longrightarrow> count_list xs x \<le> Suc 0 \<Longrightarrow> count_list xs x = Suc 0"
  using count_list_0_iff [of xs x] by (cases "count_list xs x") auto

lemma upsert_count_same:
  "count_list rows' k \<le> Suc 0 \<Longrightarrow> count_list (upsert k rows') k = Suc 0"
  by (cases "k \<in> set rows'")
     (auto simp: upsert_def count_list_append1 count_list_0_iff count_list_member_one)

lemma upsert_count_bound:
  "count_list rows' k \<le> Suc 0 \<Longrightarrow> count_list (upsert k' rows') k \<le> Suc 0"
  by (cases "k = k'") (auto simp: upsert_count_same, auto simp: upsert_def count_list_append1)

lemma upsert_idem: "upsert k (upsert k rows') = upsert k rows'"
  by (simp add: upsert_def)

lemma deleteMany_count_bound:
  "count_list rows' k \<le> Suc 0 \<Longrightarrow> count_list (deleteMany k' rows') k \<le> Suc 0"
  unfolding deleteMany_def using count_list_filter_le [of "\<lambda>r. r \<noteq> k'" rows' k] by simp

lemma persistReaction_add:
  "fst (persistReaction db (JStr ''add'') key rows')
     = (if resolves db then upsert key rows' else rows')"
  by (auto simp: persistReaction_def resolves_def strict_eq_def split: option.splits)

lemma on_messageReaction_add_rows:
  "\<not> nullish p \<Longrightarrow> get p ''action'' = JStr ''add'' \<Longrightarrow>
   reactionRows (st (on_messageReaction db sid uid p s))
     = (if resolves db then upsert (reaction_key p uid) (reactionRows s) else reactionRows s)"
  using persistReaction_add [of db "reaction_key p uid" "reactionRows s"]
  by (auto simp: on_messageReaction_def Let_def ok_def reaction_key_def split: prod.splits)

lemma on_messageReaction_emits:
  "\<not> nullish p \<Longrightarrow>
   emits (on_messageReaction db sid uid p s)
     = [(IoTo (get p ''conversationId''), ''messageReaction'', reaction_event p uid)]"
  by (auto simp: on_messageReaction_def Let_def ok_def reaction_event_def split: prod.splits)

lemma reaction_rows_invariant:
  "count_list (reactionRows s) k \<le> 1 \<Longrightarrow>
   count_list (reactionRows (st (on_messageReaction db sid uid p s))) k \<le> 1"
  by (auto simp: on_messageReaction_def Let_def ok_def throw_def persistReaction_def
        upsert_count_bound deleteMany_count_bound split: prod.splits option.splits)

lemma server_adds:
  "\<not> nullish p \<Longrightarrow> get p ''action'' = JStr ''add'' \<Longrightarrow>
   count_list (reactionRows s) (reaction_key p uid) \<le> 1 \<Longrightarrow>
   count_list (reactionRows (reactions_on_server dbs sid uid p s)) (reaction_key p uid) \<le> 1
   \<and> (list_ex resolves dbs \<longrightarrow>
        count_list (reactionRows (reactions_on_server dbs sid uid p s)) (reaction_key p uid) = 1)
   \<and> (count_list (reactionRows s) (reaction_key p uid) = 1 \<longrightarrow>
        count_list (reactionRows (reactions_on_server dbs sid uid p s)) (reaction_key p uid) = 1)"
proof (induction dbs arbitrary: s)
  case Nil
  then show ?case by simp
next
  case (Cons db dbs)
  let ?s = "st (on_messageReaction db sid uid p s)"
  have rows: "reactionRows ?s
     = (if resolves db then upsert (reaction_key p uid) (reactionRows s) else reactionRows s)"
    using Cons.prems by (simp add: on_messageReaction_add_rows)
  have bound: "count_list (reactionRows ?s) (reaction_key p uid) \<le> 1"
    using Cons.prems rows by (simp add: upsert_count_same)
  have one: "resolves db \<or> count_list (reactionRows s) (reaction_key p uid) = 1
             \<Longrightarrow> count_list (reactionRows ?s) (reaction_key p uid) = 1"
    using Cons.prems rows by (auto simp: upsert_count_same)
  from Cons.IH [OF Cons.prems(1) Cons.prems(2) bound] one
  show ?case by auto
qed

subsection \<open>The client's mapping\<close>

text \<open>
  C3. User \<open>B\<close> sends an \<open>add\<close> reaction on message \<open>m1\<close> whose emoji is the string
  \<open>constructor\<close>. The server relays it as it came. On a client that holds no reactions,
  the handler reads \<open>currentReactions[emoji]\<close> on an empty object and finds the inherited
  \<open>Object\<close> function instead of a list: the call of \<open>includes\<close> throws a TypeError,
  whatever the runtime's built-ins hold otherwise, and the mapping never lists the user.
\<close>

theorem inherited_emoji_key_breaks_reaction_handler:
  "emits (on_messageReaction db_ok ''s2'' (JStr ''B'') react_ctor init)
     = [(IoTo (JStr ''c1''), ''messageReaction'', reaction_event react_ctor (JStr ''B''))]
   \<and> reaction_event react_ctor (JStr ''B'')
       = JObj [(''messageId'', JStr ''m1''), (''emoji'', JStr ''constructor''),
               (''action'', JStr ''add''), (''userId'', JStr ''B'')]
   \<and> handleMessageReactionFromSocket builtin_read (reaction_event react_ctor (JStr ''B''))
         client_demo = Inl TypeError"
  by (simp add: on_messageReaction_def react_ctor_def reaction_event_def ok_def init_def
        persistReaction_def db_ok_def strict_eq_def upsert_def Let_def
        handleMessageReactionFromSocket_def client_demo_def reactions_of_def users_of_def
        object_prototype_member_def or_empty_def updatedEmojiUsers_def)

text \<open>
  The client of the user who reacts appends the user id in \<open>onAddReaction\<close> before it
  emits. After two such calls for the same message and emoji the list holds the user
  twice, and the two broadcasts that follow leave it so. A client that only handles the
  two broadcasts lists the user once.
\<close>

lemma own_client_lists_user_twice:
  "\<exists>c'. steps [onAddReaction builtin_read (JStr ''m1'') (JStr ''+1''),
                 onAddReaction builtin_read (JStr ''m1'') (JStr ''+1''),
                 handleMessageReactionFromSocket builtin_read (reaction_event react_demo (JStr ''A'')),
                 handleMessageReactionFromSocket builtin_read (reaction_event react_demo (JStr ''A''))]
            client_demo = Inr c'
        \<and> emoji_users c' (JStr ''m1'') (JStr ''+1'') = JArr [JStr ''A'', JStr ''A'']"
  by (simp add: onAddReaction_def handleMessageReactionFromSocket_def client_demo_def
        reactions_of_def users_of_def object_prototype_member_def or_empty_def
        updatedEmojiUsers_def spread_with_def includes_js_def array_includes_def
        react_demo_def reaction_event_def strict_eq_def emoji_users_def Let_def)

lemma other_client_lists_user_once:
  "\<exists>c'. steps [handleMessageReactionFromSocket builtin_read (reaction_event react_demo (JStr ''B'')),
                 handleMessageReactionFromSocket builtin_read (reaction_event react_demo (JStr ''B''))]
            client_demo = Inr c'
        \<and> emoji_users c' (JStr ''m1'') (JStr ''+1'') = JArr [JStr ''B'']"
  by (simp add: handleMessageReactionFromSocket_def client_demo_def
        reactions_of_def users_of_def object_prototype_member_def or_empty_def
        updatedEmojiUsers_def spread_with_def includes_js_def array_includes_def
        react_demo_def reaction_event_def strict_eq_def emoji_users_def Let_def)

text \<open>
  Where the handler returns for an \<open>add\<close> event with a primitive user id, handling the
  same event again changes nothing.
\<close>

lemma includes_after_spread:
  "primitive u \<Longrightarrow> includes_js v u = Inr False \<Longrightarrow> spread_with v u = Inr w \<Longrightarrow>
   includes_js w u = Inr True \<and> truthy w"
  by (auto simp: includes_js_def spread_with_def array_includes_def strict_eq_def
        split: json.splits)

lemma repeated_add_changes_nothing:
  assumes first: "handleMessageReactionFromSocket builtin_read r c = Inr c1"
    and add: "strict_eq (get r ''action'') (JStr ''add'')"
    and u: "primitive (get r ''userId'')"
  shows "handleMessageReactionFromSocket builtin_read r c1 = Inr c1"
proof -
  let ?mk = "js_string (get r ''messageId'')" and ?ek = "js_string (get r ''emoji'')"
  have r: "\<not> nullish r"
    using first by (auto simp: handleMessageReactionFromSocket_def split: if_splits)
  obtain x where x: "users_of builtin_read (reactions_of c ?mk) ?ek = Inr x"
    using first r by (auto simp: handleMessageReactionFromSocket_def Let_def split: sum.splits)
  obtain upd where upd: "updatedEmojiUsers (get r ''action'') (or_empty x) (get r ''userId'') = Inr upd"
    using first r x by (auto simp: handleMessageReactionFromSocket_def Let_def split: sum.splits)
  have c1: "c1 = c\<lparr>messageReactions :=
              (messageReactions c)(?mk \<mapsto> (own_keys (reactions_of c ?mk))(?ek \<mapsto> upd))\<rparr>"
    using first r x upd by (simp add: handleMessageReactionFromSocket_def Let_def)
  have kept: "includes_js upd (get r ''userId'') = Inr True \<and> truthy upd"
  proof (cases "or_empty x")
    case Builtin
    with upd show ?thesis by (simp add: updatedEmojiUsers_def)
  next
    case (Data v)
    have tv: "truthy v"
      using Data by (cases x) (auto simp: or_empty_def split: if_splits)
    from upd Data add obtain present where
      p: "includes_js v (get r ''userId'') = Inr present"
      by (auto simp: updatedEmojiUsers_def split: sum.splits)
    show ?thesis
    proof (cases present)
      case True
      with upd Data add p tv show ?thesis by (simp add: updatedEmojiUsers_def)
    next
      case False
      with upd Data add p have "spread_with v (get r ''userId'') = Inr upd"
        by (simp add: updatedEmojiUsers_def)
      with includes_after_spread [OF u] p False show ?thesis by simp
    qed
  qed
  have holder: "reactions_of c1 ?mk = Plain ((own_keys (reactions_of c ?mk))(?ek \<mapsto> upd))"
    by (simp add: c1 reactions_of_def)
  have again: "users_of builtin_read (reactions_of c1 ?mk) ?ek = Inr (Data upd)"
    by (simp add: holder users_of_def)
  have same: "updatedEmojiUsers (get r ''action'') (or_empty (Data upd)) (get r ''userId'') = Inr upd"
    using kept add by (simp add: or_empty_def updatedEmojiUsers_def)
  have "handleMessageReactionFromSocket builtin_read r c1
          = Inr (c1\<lparr>messageReactions :=
              (messageReactions c1)(?mk \<mapsto> (own_keys (reactions_of c1 ?mk))(?ek \<mapsto> upd))\<rparr>)"
    using r again same by (simp add: handleMessageReactionFromSocket_def Let_def)
  also have "\<dots> = Inr c1"
  proof -
    let ?m = "(own_keys (reactions_of c ?mk))(?ek \<mapsto> upd)"
    have own: "own_keys (reactions_of c1 ?mk) = ?m"
      by (simp add: holder own_keys_def)
    have stored: "messageReactions c1 = (messageReactions c)(?mk \<mapsto> ?m)"
      by (simp add: c1)
    have "(messageReactions c1)(?mk \<mapsto> ?m(?ek \<mapsto> upd)) = messageReactions c1"
      unfolding stored by simp
    then show ?thesis unfolding own by simp
  qed
  finally show ?thesis .
qed

section \<open>Client reconciliation\<close>

subsection \<open>A message delivered twice\<close>

text \<open>
  C2. The client of user \<open>A\<close> installs its listeners after login, with no conversation
  open, and \<open>A\<close> then opens the conversation \<open>c1\<close>, which has no messages yet. A message of
  \<open>c1\<close> now arrives twice. The listener still reads the conversation of the render it was
  installed in, none, so neither delivery appends the message: the list stays empty, and
  the unread count of \<open>c1\<close> goes up twice.
\<close>

theorem stale_listener_drops_open_conversation_message:
  "listener (setSelectedConversation conv_demo (setupListeners client_start)) = Some JNull
   \<and> selectedConversation (setSelectedConversation conv_demo (setupListeners client_start))
       = conv_demo
   \<and> messages (setSelectedConversation conv_demo (setupListeners client_start)) = []
   \<and> deliver date [chat1, chat1] (setSelectedConversation conv_demo (setupListeners client_start))
       = Inr ((setSelectedConversation conv_demo (setupListeners client_start))
                \<lparr>conversations :=
                   [JObj [(''id'', JStr ''c1''), (''lastMessage'', chat1),
                          (''updatedAt'', JNum 1000), (''unreadCount'', JNum 2)]]\<rparr>)"
  by (simp add: setSelectedConversation_def setupListeners_def client_start_def conv_demo_def
        handleReceiveMessage_def handleNewMessage_def opt_get_def strict_eq_def chat1_def
        update_conv_def plus_one_def or_else_def Let_def)

text \<open>
  With a listener installed while \<open>c1\<close> is open, the same two deliveries leave one entry.
  On that path a second message of the same sender, with another id and another text, two
  seconds later, is dropped as a duplicate: the heuristic compares the field \<open>message\<close>,
  which these messages (they carry \<open>content\<close>) do not have.
\<close>

lemma listener_of_open_conversation_keeps_one_entry:
  "\<exists>c'. deliver date [chat1, chat1] (setupListeners (setSelectedConversation conv_demo client_start))
           = Inr c'
        \<and> messages c' = [chat1]"
  by (simp add: setSelectedConversation_def setupListeners_def client_start_def conv_demo_def
        handleReceiveMessage_def handleNewMessage_def opt_get_def strict_eq_def chat1_def
        add_if_new_def isDuplicate_def Let_def)

lemma heuristic_drops_other_message:
  "\<exists>c'. deliver date_demo [chat1, chat2, chat2]
             (setupListeners (setSelectedConversation conv_demo client_start)) = Inr c'
        \<and> messages c' = [chat1]"
  by (simp add: setSelectedConversation_def setupListeners_def client_start_def conv_demo_def
        handleReceiveMessage_def handleNewMessage_def opt_get_def strict_eq_def chat1_def
        chat2_def add_if_new_def isDuplicate_def within_window_def date_demo_def Let_def)

text \<open>
  The second delivery of a message changes nothing once the first has been handled by a
  listener that holds the conversation of the message.
\<close>

lemma find_snoc: "find P xs = None \<Longrightarrow> P x \<Longrightarrow> find P (xs @ [x]) = Some x"
  by (induction xs) (auto split: if_splits)

lemma add_if_new_twice:
  assumes "isDuplicate date message message" "truthy message" "list_all truthy prev"
  shows "add_if_new date message (add_if_new date message prev) = add_if_new date message prev"
proof (cases "find (isDuplicate date message) prev")
  case None
  then have "find (isDuplicate date message) (prev @ [message]) = Some message"
    using assms(1) by (rule find_snoc)
  with None assms(2) show ?thesis by (simp add: add_if_new_def)
next
  case (Some m)
  then have "m \<in> set prev"
    by (auto simp: find_Some_iff)
  with assms(3) have "truthy m" by (simp add: list_all_iff)
  with Some show ?thesis by (simp add: add_if_new_def)
qed

lemma find_None_no_id:
  "find (isDuplicate date message) prev = None \<Longrightarrow>
   filter (\<lambda>m. strict_eq (get m ''id'') (get message ''id'')) prev = []"
  by (auto simp: find_None_iff isDuplicate_def filter_empty_conv)

lemma second_delivery_changes_nothing:
  assumes "listener c = Some sel" "\<not> truthy (opt_get sel ''isAI'')"
    "strict_eq (get message ''conversationId'') (opt_get sel ''id'')"
    "truthy message" "\<not> nullish message" "primitive (get message ''id'')"
    "list_all truthy (messages c)"
  shows "\<exists>c1 c2. handleReceiveMessage date message c = Inr c1
           \<and> handleReceiveMessage date message c1 = Inr c2
           \<and> messages c2 = messages c1"
proof -
  let ?c1 = "c\<lparr>messages := add_if_new date message (messages c),
                conversations := map (update_conv message False) (conversations c)\<rparr>"
  let ?c2 = "?c1\<lparr>messages := add_if_new date message (messages ?c1),
                  conversations := map (update_conv message False) (conversations ?c1)\<rparr>"
  have self: "isDuplicate date message message"
    using assms(6) by (simp add: isDuplicate_def strict_eq_def)
  have first: "handleReceiveMessage date message c = Inr ?c1"
    using assms by (simp add: handleReceiveMessage_def handleNewMessage_def)
  have second: "handleReceiveMessage date message ?c1 = Inr ?c2"
    using assms by (simp add: handleReceiveMessage_def handleNewMessage_def)
  have "messages ?c2 = messages ?c1"
    using add_if_new_twice [OF self assms(4) assms(7)] by simp
  with first second show ?thesis by blast
qed

subsection \<open>Sending: the optimistic entry and its replacement\<close>




text \<open>
  C7. Let the user send a text in a conversation that is not the assistant's, let the
  temporary id and the server id be new to the message list, and let the request succeed
  with a stored message that has the server id and the text sent. After
  \<open>handleSendMessage\<close> the list is the old list followed by one entry, the stored message
  with \<open>isOptimistic\<close> false: exactly one entry has the server id, it carries the text sent,
  and no entry has the temporary id. That list comes from the old list with the optimistic
  entry appended (temporary id, the text sent, \<open>isOptimistic\<close> true) by the replacement of
  the entry with the temporary id.
\<close>





end
